theory Spec2Isabelle
  imports Main "HOL-Library.AList"
begin

section \<open>Text and bytes\<close>

text \<open>
  The server (\<^verbatim>\<open>src/src/Serveur.py\<close>) and the client (\<^verbatim>\<open>src/src/Client.py\<close>) exchange
  lines of text and store byte strings in files. Both are modelled as \<open>char list\<close>: one
  \<open>char\<close> is one byte. The accented letters of the server's French messages appear as
  their UTF-8 bytes, as \<^verbatim>\<open>str.encode()\<close> puts them on the wire. Whitespace and case
  mapping are those of ASCII, which is what the protocol's verbs and hexadecimal payloads
  use.
\<close>

type_synonym bytes = "char list"

definition BLOCK_SIZE :: nat where
  "BLOCK_SIZE = 512"

definition nl :: string where
  "nl = [CHR 0x0A]"

definition apos :: string where
  "apos = [CHR 0x27]"

definition e_acute :: string where
  "e_acute = [CHR 0xC3, CHR 0xA9]"

definition a_grave :: string where
  "a_grave = [CHR 0xC3, CHR 0xA0]"

definition E_acute :: string where
  "E_acute = [CHR 0xC3, CHR 0x89]"

text \<open>\<^verbatim>\<open>str.isspace\<close> on one ASCII character: tab, line feed, vertical tab, form feed,
  carriage return, the four separators 0x1C to 0x1F, and the space.\<close>

definition isspace :: "char \<Rightarrow> bool" where
  "isspace c = (let n = (of_char c :: nat) in (9 \<le> n \<and> n \<le> 13) \<or> (28 \<le> n \<and> n \<le> 32))"

text \<open>\<^verbatim>\<open>str.upper\<close>, one character at a time.\<close>

definition toupper :: "char \<Rightarrow> char" where
  "toupper c = (let n = (of_char c :: nat) in if 97 \<le> n \<and> n \<le> 122 then char_of (n - 32) else c)"

definition upper :: "string \<Rightarrow> string" where
  "upper s = map toupper s"

text \<open>\<^verbatim>\<open>s.startswith(p)\<close>.\<close>

definition startswith :: "string \<Rightarrow> string \<Rightarrow> bool" where
  "startswith s p = (take (length p) s = p)"

text \<open>\<^verbatim>\<open>s.strip()\<close>: whitespace removed at both ends.\<close>

definition lstrip :: "string \<Rightarrow> string" where
  "lstrip s = dropWhile isspace s"

definition rstrip :: "string \<Rightarrow> string" where
  "rstrip s = rev (dropWhile isspace (rev s))"

definition strip :: "string \<Rightarrow> string" where
  "strip s = rstrip (lstrip s)"

text \<open>\<^verbatim>\<open>s.split()\<close>: the maximal runs of non-whitespace characters, in order.\<close>

function split :: "string \<Rightarrow> string list" where
  "split s =
     (let r = dropWhile isspace s
      in if r = [] then []
         else takeWhile (\<lambda>c. \<not> isspace c) r # split (dropWhile (\<lambda>c. \<not> isspace c) r))"
  by pat_completeness auto
termination
proof (relation "measure length")
  show "wf (measure length)" by simp
next
  fix s r :: string
  assume r: "r = dropWhile isspace s" and ne: "r \<noteq> []"
  from ne obtain c cs where rc: "r = c # cs" by (cases r) auto
  have "dropWhile isspace s \<noteq> []" using ne r by blast
  then have "\<not> isspace (hd (dropWhile isspace s))" by (rule hd_dropWhile)
  then have "\<not> isspace c" using r rc by (metis list.sel(1))
  then have "length (dropWhile (\<lambda>c. \<not> isspace c) r) < length r"
    using rc by (simp add: le_imp_less_Suc length_dropWhile_le)
  also have "length r \<le> length s" using r by (simp add: length_dropWhile_le)
  finally show "(dropWhile (\<lambda>c. \<not> isspace c) r, s) \<in> measure length" by simp
qed

declare split.simps [simp del]

text \<open>\<^verbatim>\<open>sep.join(xs)\<close>.\<close>

fun join :: "string \<Rightarrow> string list \<Rightarrow> string" where
  "join sep [] = []"
| "join sep [x] = x"
| "join sep (x # y # ys) = x @ sep @ join sep (y # ys)"

text \<open>\<^verbatim>\<open>str(n)\<close> for a non-negative integer, and for any integer.\<close>

definition digit_char :: "nat \<Rightarrow> char" where
  "digit_char d = char_of (48 + d)"

function str_nat :: "nat \<Rightarrow> string" where
  "str_nat n = (if n < 10 then [digit_char n] else str_nat (n div 10) @ [digit_char (n mod 10)])"
  by pat_completeness auto
termination
  by (relation "measure id") auto

declare str_nat.simps [simp del]

definition str_int :: "int \<Rightarrow> string" where
  "str_int i = (if i < 0 then CHR ''-'' # str_nat (nat (- i)) else str_nat (nat i))"

text \<open>\<^verbatim>\<open>int(s)\<close> on a string: surrounding whitespace is ignored, one sign is allowed, and
  the decimal digits may be grouped by single underscores. \<open>None\<close> stands for the
  \<^verbatim>\<open>ValueError\<close>.\<close>

definition digit_val :: "char \<Rightarrow> nat option" where
  "digit_val c = (let n = (of_char c :: nat) in if 48 \<le> n \<and> n \<le> 57 then Some (n - 48) else None)"

fun parse_digits :: "nat \<Rightarrow> string \<Rightarrow> nat option" where
  "parse_digits acc [] = Some acc"
| "parse_digits acc (c # cs) =
     (if c = CHR ''_'' then
        (case cs of
           [] \<Rightarrow> None
         | d # ds \<Rightarrow> (case digit_val d of None \<Rightarrow> None | Some v \<Rightarrow> parse_digits (10 * acc + v) ds))
      else (case digit_val c of None \<Rightarrow> None | Some v \<Rightarrow> parse_digits (10 * acc + v) cs))"

definition py_nat :: "string \<Rightarrow> nat option" where
  "py_nat s =
     (case s of
        [] \<Rightarrow> None
      | c # cs \<Rightarrow> (case digit_val c of None \<Rightarrow> None | Some v \<Rightarrow> parse_digits v cs))"

definition py_int :: "string \<Rightarrow> int option" where
  "py_int s =
     (case strip s of
        [] \<Rightarrow> None
      | c # cs \<Rightarrow>
          if c = CHR ''-'' then map_option (\<lambda>n. - int n) (py_nat cs)
          else if c = CHR ''+'' then map_option int (py_nat cs)
          else map_option int (py_nat (c # cs)))"

section \<open>Hexadecimal payloads\<close>

text \<open>\<^verbatim>\<open>bytes.hex()\<close>: two lowercase digits per byte.\<close>

definition hexdigit :: "nat \<Rightarrow> char" where
  "hexdigit n = (if n < 10 then char_of (48 + n) else char_of (87 + n))"

definition hex_byte :: "char \<Rightarrow> string" where
  "hex_byte c = [hexdigit ((of_char c :: nat) div 16), hexdigit ((of_char c :: nat) mod 16)]"

definition hex :: "bytes \<Rightarrow> string" where
  "hex bs = concat (map hex_byte bs)"

text \<open>\<^verbatim>\<open>bytes.fromhex(s)\<close>: ASCII whitespace is skipped between bytes, never inside one; a
  character that is no hexadecimal digit, or a missing second digit, raises
  \<^verbatim>\<open>ValueError\<close>. \<open>Inl p\<close> is that error with the position \<open>p\<close> it reports.\<close>

definition hex_value :: "char \<Rightarrow> nat option" where
  "hex_value c =
     (let n = (of_char c :: nat)
      in if 48 \<le> n \<and> n \<le> 57 then Some (n - 48)
         else if 97 \<le> n \<and> n \<le> 102 then Some (n - 87)
         else if 65 \<le> n \<and> n \<le> 70 then Some (n - 55)
         else None)"

definition hex_isspace :: "char \<Rightarrow> bool" where
  "hex_isspace c = (let n = (of_char c :: nat) in (9 \<le> n \<and> n \<le> 13) \<or> n = 32)"

fun fromhex_at :: "nat \<Rightarrow> string \<Rightarrow> nat + bytes" where
  "fromhex_at p [] = Inr []"
| "fromhex_at p (c # cs) =
     (if hex_isspace c then fromhex_at (Suc p) cs
      else (case hex_value c of
              None \<Rightarrow> Inl p
            | Some hi \<Rightarrow>
                (case cs of
                   [] \<Rightarrow> Inl (Suc p)
                 | d # ds \<Rightarrow>
                     (case hex_value d of
                        None \<Rightarrow> Inl (Suc p)
                      | Some lo \<Rightarrow>
                          (case fromhex_at (Suc (Suc p)) ds of
                             Inl e \<Rightarrow> Inl e
                           | Inr bs \<Rightarrow> Inr (char_of (16 * hi + lo) # bs))))))"

definition fromhex :: "string \<Rightarrow> nat + bytes" where
  "fromhex s = fromhex_at 0 s"

section \<open>Exceptions\<close>

text \<open>The exceptions the modelled code can raise, each with the text \<^verbatim>\<open>str(e)\<close> gives.\<close>

datatype pyexn =
    ValueError string
  | OSError string
  | AttributeError string
  | IndexError string
  | FileNotFoundError string
  | ConnectionError string
  | Exception string

fun str_exn :: "pyexn \<Rightarrow> string" where
  "str_exn (ValueError m) = m"
| "str_exn (OSError m) = m"
| "str_exn (AttributeError m) = m"
| "str_exn (IndexError m) = m"
| "str_exn (FileNotFoundError m) = m"
| "str_exn (ConnectionError m) = m"
| "str_exn (Exception m) = m"

definition fromhex_error :: "nat \<Rightarrow> pyexn" where
  "fromhex_error p =
     ValueError (''non-hexadecimal number found in fromhex() arg at position '' @ str_nat p)"

section \<open>The server's directory\<close>

text \<open>
  \<^verbatim>\<open>DEFAULT_DIR\<close> is a flat directory of regular files. A name is bound to an inode and
  an inode holds the bytes, so that a file object kept open across commands (the upload
  destination) still designates its file after the name was renamed or deleted, as on a
  POSIX system. File names are plain names: sub-directories and path traversal are outside
  the model, as they are outside the specification.

  Opening and reading a regular file always succeed. A write to disk fails when the field
  \<open>wfault\<close> holds the text of the \<^verbatim>\<open>OSError\<close> the system raises (a full disk, say); a
  write followed by a flush is one step that stores all the bytes or none.
\<close>

record world =
  root_dir :: string
  dir :: "(string \<times> nat) list"
  inodes :: "nat \<Rightarrow> bytes"
  next_inode :: nat
  wfault :: "string option"

text \<open>A file object opened for writing: \<^verbatim>\<open>'ab'\<close> writes at the end of the file whatever
  the position is; \<^verbatim>\<open>'wb'\<close> writes at the position, which starts at 0.\<close>

record fhandle =
  h_inode :: nat
  h_append :: bool
  h_pos :: nat

definition path_join :: "world \<Rightarrow> string \<Rightarrow> string" where
  "path_join w name = root_dir w @ ''/'' @ name"

definition path_exists :: "world \<Rightarrow> string \<Rightarrow> bool" where
  "path_exists w name = (map_of (dir w) name \<noteq> None)"

definition file_bytes :: "world \<Rightarrow> string \<Rightarrow> bytes option" where
  "file_bytes w name = map_option (inodes w) (map_of (dir w) name)"

definition getsize :: "world \<Rightarrow> string \<Rightarrow> nat" where
  "getsize w name = (case file_bytes w name of None \<Rightarrow> 0 | Some b \<Rightarrow> length b)"

text \<open>\<^verbatim>\<open>open(path, 'w')\<close> and \<^verbatim>\<open>open(path, 'wb')\<close>: the file is emptied, or created empty.\<close>

definition open_trunc :: "world \<Rightarrow> string \<Rightarrow> nat \<times> world" where
  "open_trunc w name =
     (case map_of (dir w) name of
        Some i \<Rightarrow> (i, w\<lparr>inodes := (inodes w)(i := [])\<rparr>)
      | None \<Rightarrow>
          (let i = next_inode w
           in (i, w\<lparr>dir := dir w @ [(name, i)], inodes := (inodes w)(i := []), next_inode := Suc i\<rparr>)))"

text \<open>\<^verbatim>\<open>open(path, 'a')\<close> and \<^verbatim>\<open>open(path, 'ab')\<close>: the file is kept, or created empty.\<close>

definition open_append :: "world \<Rightarrow> string \<Rightarrow> nat \<times> world" where
  "open_append w name =
     (case map_of (dir w) name of
        Some i \<Rightarrow> (i, w)
      | None \<Rightarrow> open_trunc w name)"

text \<open>The bytes of a file after \<open>data\<close> was written at position \<open>pos\<close>; a position beyond
  the end leaves a gap of zero bytes.\<close>

definition write_at :: "nat \<Rightarrow> bytes \<Rightarrow> bytes \<Rightarrow> bytes" where
  "write_at pos data old =
     take pos (old @ replicate (pos - length old) (CHR 0x00)) @ data @ drop (pos + length data) old"

text \<open>\<^verbatim>\<open>n = f.write(data); f.flush()\<close> on a file object.\<close>

definition fwrite :: "world \<Rightarrow> fhandle \<Rightarrow> bytes \<Rightarrow> pyexn + (nat \<times> fhandle \<times> world)" where
  "fwrite w h data =
     (case wfault w of
        Some msg \<Rightarrow> Inl (OSError msg)
      | None \<Rightarrow>
          (let old = inodes w (h_inode h);
               new = (if h_append h then old @ data else write_at (h_pos h) data old);
               pos = (if h_append h then length old + length data else h_pos h + length data)
           in Inr (length data, h\<lparr>h_pos := pos\<rparr>, w\<lparr>inodes := (inodes w)(h_inode h := new)\<rparr>)))"

text \<open>\<^verbatim>\<open>f.seek(offset)\<close> on a binary file: a negative offset and one that does not fit the
  system's offset type raise; any other is accepted, also beyond the end of the file.\<close>

definition seek_check :: "int \<Rightarrow> pyexn + nat" where
  "seek_check off =
     (if off < 0 then Inl (OSError ''[Errno 22] Invalid argument'')
      else if off \<ge> 2 ^ 63 then Inl (ValueError (''cannot fit '' @ apos @ ''int'' @ apos @ '' into an offset-sized integer''))
      else Inr (nat off))"

text \<open>The loop \<^verbatim>\<open>while True: chunk = f.read(BLOCK_SIZE); if not chunk: break\<close> over the
  bytes that remain after the read position: the chunks it sees, in order.\<close>

function read_chunks :: "bytes \<Rightarrow> bytes list" where
  "read_chunks rest =
     (let chunk = take BLOCK_SIZE rest
      in if chunk = [] then [] else chunk # read_chunks (drop BLOCK_SIZE rest))"
  by pat_completeness auto
termination
  by (relation "measure length") (auto simp: BLOCK_SIZE_def)

declare read_chunks.simps [simp del]

section \<open>The session state machine of the server\<close>

text \<open>The dictionary \<^verbatim>\<open>session_state\<close> that \<^verbatim>\<open>handle_client\<close> creates for a connection,
  with the keys as fields. \<open>transfer_file\<close> holds the open file object of the upload.\<close>

datatype phase = ASSOCIATED | FILE_OPEN | TRANSFER_IN_PROGRESS

record session_state =
  open_file :: "string option"
  phase :: phase
  transfer_in_progress :: bool
  transfer_offset :: nat
  transfer_file :: "fhandle option"
  error_flag :: bool
  error_message :: string

definition initial_session :: session_state where
  "initial_session =
     \<lparr>open_file = None, phase = ASSOCIATED, transfer_in_progress = False, transfer_offset = 0,
      transfer_file = None, error_flag = False, error_message = []\<rparr>"

type_synonym reply = "string \<times> session_state \<times> world"

definition cmd_list :: "session_state \<Rightarrow> world \<Rightarrow> reply" where
  "cmd_list s w =
     (let files = map fst (dir w)
      in if files \<noteq> [] then
           (''LIST_OK'' @ nl @ ''=== Liste des fichiers ==='' @ nl
              @ join nl (map (\<lambda>f. ''  - '' @ f) files) @ nl @ ''==========================='', s, w)
         else
           (''LIST_OK'' @ nl @ ''=== Liste des fichiers ==='' @ nl @ ''Aucun fichier trouv''
              @ e_acute @ ''.'' @ nl @ ''==========================='', s, w))"

definition cmd_open :: "session_state \<Rightarrow> string list \<Rightarrow> world \<Rightarrow> reply" where
  "cmd_open s parts w =
     (if open_file s \<noteq> None then
        (''ERREUR: Un fichier est d'' @ e_acute @ ''j'' @ a_grave @ '' ouvert'', s, w)
      else if length parts < 2 then
        (''ERREUR: OPEN n'' @ e_acute @ ''cessite un nom de fichier'', s, w)
      else
        (let filename = parts ! 1
         in if \<not> path_exists w filename then
              (''ERREUR: Le fichier '' @ apos @ filename @ apos @ '' n'' @ apos @ ''existe pas'', s, w)
            else
              (''OPEN_OK '' @ filename, s\<lparr>open_file := Some filename, phase := FILE_OPEN\<rparr>, w)))"

definition cmd_create :: "session_state \<Rightarrow> string list \<Rightarrow> world \<Rightarrow> reply" where
  "cmd_create s parts w =
     (if open_file s \<noteq> None then
        (''ERREUR: Un fichier est d'' @ e_acute @ ''j'' @ a_grave @ '' ouvert'', s, w)
      else if length parts < 2 then
        (''ERREUR: CREATE n'' @ e_acute @ ''cessite un nom de fichier'', s, w)
      else
        (let filename = parts ! 1;
             (i, w') = open_trunc w filename
         in (''CREATE_OK '' @ filename, s\<lparr>open_file := Some filename, phase := FILE_OPEN\<rparr>, w')))"

text \<open>\<^verbatim>\<open>os.rename\<close>: the name \<open>new\<close> takes the inode of \<open>old\<close>, replacing what it named.\<close>

definition rename_entry :: "world \<Rightarrow> string \<Rightarrow> string \<Rightarrow> world" where
  "rename_entry w old new =
     (case map_of (dir w) old of
        None \<Rightarrow> w
      | Some i \<Rightarrow>
          if old = new then w
          else w\<lparr>dir := AList.update new i (AList.delete old (dir w))\<rparr>)"

definition cmd_rename :: "session_state \<Rightarrow> string list \<Rightarrow> world \<Rightarrow> reply" where
  "cmd_rename s parts w =
     (if length parts < 3 then
        (''ERREUR: RENAME n'' @ e_acute @ ''cessite un ancien et un nouveau nom'', s, w)
      else
        (let old_name = parts ! 1;
             new_name = parts ! 2
         in if \<not> path_exists w old_name then
              (''ERREUR: Le fichier '' @ apos @ old_name @ apos @ '' n'' @ apos @ ''existe pas'', s, w)
            else
              (''RENAME_OK '' @ old_name @ '' -> '' @ new_name, s, rename_entry w old_name new_name)))"

definition cmd_delete :: "session_state \<Rightarrow> string list \<Rightarrow> world \<Rightarrow> reply" where
  "cmd_delete s parts w =
     (if length parts < 2 then
        (''ERREUR: DELETE n'' @ e_acute @ ''cessite un nom de fichier'', s, w)
      else
        (let filename = parts ! 1
         in if \<not> path_exists w filename then
              (''ERREUR: Le fichier '' @ apos @ filename @ apos @ '' n'' @ apos @ ''existe pas'', s, w)
            else
              (''DELETE_OK '' @ filename, s, w\<lparr>dir := AList.delete filename (dir w)\<rparr>)))"

text \<open>Reading in text mode turns every \<^verbatim>\<open>\r\n\<close> and every lone \<^verbatim>\<open>\r\<close> into \<^verbatim>\<open>\n\<close>.\<close>

fun universal_newlines :: "bytes \<Rightarrow> string" where
  "universal_newlines [] = []"
| "universal_newlines [c] = (if c = CHR 0x0D then [CHR 0x0A] else [c])"
| "universal_newlines (c # d # ds) =
     (if c = CHR 0x0D \<and> d = CHR 0x0A then CHR 0x0A # universal_newlines ds
      else if c = CHR 0x0D then CHR 0x0A # universal_newlines (d # ds)
      else c # universal_newlines (d # ds))"

definition cmd_read :: "session_state \<Rightarrow> world \<Rightarrow> reply" where
  "cmd_read s w =
     (case open_file s of
        None \<Rightarrow>
          (''ERREUR: Aucun fichier ouvert. Utilise OPEN ou CREATE d'' @ apos @ ''abord'', s, w)
      | Some filename \<Rightarrow>
          (case file_bytes w filename of
             None \<Rightarrow>
               (''ERREUR: Lecture du fichier '' @ e_acute @ ''chou'' @ e_acute @ ''e: ''
                  @ str_exn (FileNotFoundError (''[Errno 2] No such file or directory: ''
                       @ apos @ path_join w filename @ apos)), s, w)
           | Some b \<Rightarrow>
               (let content = strip (universal_newlines b)
                in (''READ_OK'' @ nl @ ''=== Contenu du fichier: '' @ filename @ '' ==='' @ nl
                      @ content @ nl @ ''==============================='', s, w))))"

definition cmd_write :: "session_state \<Rightarrow> string list \<Rightarrow> world \<Rightarrow> reply" where
  "cmd_write s parts w =
     (case open_file s of
        None \<Rightarrow>
          (''ERREUR: Aucun fichier ouvert. Utilise OPEN ou CREATE d'' @ apos @ ''abord'', s, w)
      | Some filename \<Rightarrow>
          if length parts < 2 then
            (''ERREUR: WRITE n'' @ e_acute @ ''cessite des donn'' @ e_acute @ ''es '' @ a_grave
               @ '' '' @ e_acute @ ''crire'', s, w)
          else
            (let filedata = join '' '' (tl parts);
                 (i, w1) = open_append w filename;
                 f = \<lparr>h_inode = i, h_append = True, h_pos = length (inodes w1 i)\<rparr>
             in case fwrite w1 f (filedata @ nl) of
                  Inl e \<Rightarrow>
                    (''ERREUR: '' @ E_acute @ ''criture dans le fichier '' @ e_acute @ ''chou''
                       @ e_acute @ ''e: '' @ str_exn e, s, w1)
                | Inr (n, f', w2) \<Rightarrow> (''WRITE_OK '' @ filename, s, w2)))"

definition cmd_close :: "session_state \<Rightarrow> world \<Rightarrow> reply" where
  "cmd_close s w =
     (case open_file s of
        None \<Rightarrow> (''ERREUR: Aucun fichier ouvert '' @ a_grave @ '' fermer'', s, w)
      | Some filename \<Rightarrow>
          (''CLOSE_OK '' @ filename, s\<lparr>open_file := None, phase := ASSOCIATED\<rparr>, w))"

definition cmd_begin_upload :: "session_state \<Rightarrow> string list \<Rightarrow> world \<Rightarrow> reply" where
  "cmd_begin_upload s parts w =
     (if length parts < 2 then
        (''ERREUR: UPLOAD n'' @ e_acute @ ''cessite un nom de fichier'', s, w)
      else
        (let filename = parts ! 1;
             offset = (if path_exists w filename then getsize w filename else 0);
             (i, w') = (if path_exists w filename then open_append w filename
                        else open_trunc w filename);
             f = \<lparr>h_inode = i, h_append = path_exists w filename, h_pos = offset\<rparr>;
             s' = s\<lparr>transfer_in_progress := True, transfer_file := Some f,
                    transfer_offset := offset, phase := TRANSFER_IN_PROGRESS\<rparr>
         in if offset > 0 then
              (''UPLOAD_RESUME '' @ filename @ '' offset='' @ str_nat offset, s', w')
            else
              (''UPLOAD_READY '' @ filename @ '' offset='' @ str_nat offset, s', w')))"

text \<open>The \<^verbatim>\<open>except\<close> branch of \<^verbatim>\<open>cmd_upload_data\<close>: the error is recorded on the session
  and the file object is left as it is.\<close>

definition upload_failed :: "session_state \<Rightarrow> pyexn \<Rightarrow> world \<Rightarrow> reply" where
  "upload_failed s e w =
     (''UPLOAD_ERROR '' @ str_exn e, s\<lparr>error_flag := True, error_message := str_exn e\<rparr>, w)"

definition cmd_upload_data :: "session_state \<Rightarrow> string list \<Rightarrow> world \<Rightarrow> reply" where
  "cmd_upload_data s parts w =
     (if \<not> transfer_in_progress s then (''ERREUR: Aucun upload en cours'', s, w)
      else if length parts < 2 then
        (''ERREUR: UPLOAD_DATA n'' @ e_acute @ ''cessite des donn'' @ e_acute @ ''es '' @ a_grave
           @ '' '' @ e_acute @ ''crire'', s, w)
      else
        (let data_hex = join '' '' (tl parts)
         in case fromhex data_hex of
              Inl p \<Rightarrow> upload_failed s (fromhex_error p) w
            | Inr data_bytes \<Rightarrow>
                (case transfer_file s of
                   None \<Rightarrow>
                     upload_failed s
                       (AttributeError (apos @ ''NoneType'' @ apos @ '' object has no attribute ''
                          @ apos @ ''write'' @ apos)) w
                 | Some f \<Rightarrow>
                     (case fwrite w f data_bytes of
                        Inl e \<Rightarrow> upload_failed s e w
                      | Inr (bytes_written, f', w') \<Rightarrow>
                          (let offset = transfer_offset s + bytes_written
                           in (''UPLOAD_DATA_OK offset='' @ str_nat offset,
                               s\<lparr>transfer_file := Some f', transfer_offset := offset\<rparr>, w'))))))"

definition cmd_upload_end :: "session_state \<Rightarrow> world \<Rightarrow> reply" where
  "cmd_upload_end s w =
     (if \<not> transfer_in_progress s then (''ERREUR: Aucun upload en cours'', s, w)
      else if error_flag s then (''UPLOAD_INTERRUPTED'', s, w)
      else
        (''UPLOAD_END_OK'',
         s\<lparr>transfer_file := None, transfer_in_progress := False, phase := FILE_OPEN,
           error_flag := False, error_message := []\<rparr>, w))"

definition cmd_resume_upload :: "session_state \<Rightarrow> world \<Rightarrow> reply" where
  "cmd_resume_upload s w =
     (if \<not> error_flag s then (''ERREUR: Aucun upload '' @ a_grave @ '' reprendre'', s, w)
      else if transfer_file s = None then (''ERREUR: Fichier de transfert non ouvert'', s, w)
      else
        (''RESUME_UPLOAD_OK offset='' @ str_nat (transfer_offset s),
         s\<lparr>transfer_in_progress := True, phase := TRANSFER_IN_PROGRESS,
           error_flag := False, error_message := []\<rparr>, w))"

definition gestionnaire_commandes :: "string \<Rightarrow> session_state \<Rightarrow> world \<Rightarrow> reply" where
  "gestionnaire_commandes command s w =
     (let parts = split command
      in if parts = [] then (''ERREUR: Commande vide'', s, w)
         else
           (let cmd = upper (hd parts)
            in if cmd = ''LIST'' then cmd_list s w
               else if cmd = ''OPEN'' then cmd_open s parts w
               else if cmd = ''CREATE'' then cmd_create s parts w
               else if cmd = ''RENAME'' then cmd_rename s parts w
               else if cmd = ''DELETE'' then cmd_delete s parts w
               else if cmd = ''READ'' then cmd_read s w
               else if cmd = ''WRITE'' then cmd_write s parts w
               else if cmd = ''CLOSE'' then cmd_close s w
               else if cmd = ''UPLOAD'' then cmd_begin_upload s parts w
               else if cmd = ''UPLOAD_DATA'' then cmd_upload_data s parts w
               else if cmd = ''UPLOAD_END'' then cmd_upload_end s w
               else if cmd = ''RESUME_UPLOAD'' then cmd_resume_upload s w
               else (''ERREUR: Commande non reconnue'', s, w)))"

section \<open>The download stream\<close>

text \<open>\<^verbatim>\<open>cmd_download\<close> answers on the socket itself. The model returns what it passes to
  \<^verbatim>\<open>sendall\<close>, call by call; each call sends one line with its line feed.\<close>

definition chunk_line :: "bytes \<Rightarrow> string" where
  "chunk_line chunk = ''CHUNK '' @ hex chunk @ nl"

definition cmd_download :: "string \<Rightarrow> session_state \<Rightarrow> world \<Rightarrow> string list" where
  "cmd_download command s w =
     (let parts = split command
      in if length parts < 2 then
           [''ERREUR: DOWNLOAD n'' @ e_acute @ ''cessite un nom de fichier'' @ nl]
         else
           (let filename = parts ! 1
            in case (if length parts > 2 then py_int (parts ! 2) else Some 0) of
                 None \<Rightarrow> [''ERREUR: Offset invalide'' @ nl]
               | Some offset \<Rightarrow>
                   (case file_bytes w filename of
                      None \<Rightarrow>
                        [''ERREUR: Le fichier '' @ apos @ filename @ apos @ '' n'' @ apos
                           @ ''existe pas'' @ nl]
                    | Some b \<Rightarrow>
                        (case seek_check offset of
                           Inl e \<Rightarrow>
                             [''ERREUR: T'' @ e_acute @ ''l'' @ e_acute @ ''chargement du fichier ''
                                @ e_acute @ ''chou'' @ e_acute @ '': '' @ str_exn e @ nl]
                         | Inr pos \<Rightarrow>
                             [''DOWNLOAD_READY '' @ filename @ '' offset='' @ str_int offset @ nl]
                               @ map chunk_line (read_chunks (drop pos b))
                               @ [''DOWNLOAD_END'' @ nl]))))"

text \<open>One turn of the loop of \<^verbatim>\<open>handle_client\<close> on a line read from the socket: the strings
  sent back, the session and the directory afterwards.\<close>

definition handle_line :: "string \<Rightarrow> session_state \<Rightarrow> world \<Rightarrow> string list \<times> session_state \<times> world" where
  "handle_line line s w =
     (let command = strip line
      in if startswith (upper command) ''DOWNLOAD'' then (cmd_download command s w, s, w)
         else
           (case gestionnaire_commandes command s w of
              (response, s', w') \<Rightarrow> ([response @ nl], s', w')))"

section \<open>The upload driver of the client\<close>





















section \<open>Concrete scenarios\<close>


definition hi_world :: world where
  "hi_world =
     \<lparr>root_dir = ''data'', dir = [(''f'', 0)], inodes = (\<lambda>i. if i = 0 then ''Hi'' else []),
      next_inode = 1, wfault = None\<rparr>"

text \<open>A session in the middle of an upload to inode 0, without and with a recorded error.\<close>

definition uploading_session :: session_state where
  "uploading_session =
     \<lparr>open_file = None, phase = TRANSFER_IN_PROGRESS, transfer_in_progress = True,
      transfer_offset = 2, transfer_file = Some \<lparr>h_inode = 0, h_append = True, h_pos = 2\<rparr>,
      error_flag = False, error_message = []\<rparr>"


text \<open>The same directory on a full disk.\<close>

definition faulty_world :: world where
  "faulty_world = hi_world\<lparr>wfault := Some ''[Errno 28] No space left on device''\<rparr>"


section \<open>Notions used to state the properties\<close>





text \<open>The ways in which a command that is not part of a transfer fails its precondition:
  an empty line, an unknown verb, a missing argument, a file that is not there, a file
  already open for \<^verbatim>\<open>OPEN\<close> and \<^verbatim>\<open>CREATE\<close>, no file open for \<^verbatim>\<open>READ\<close>, \<^verbatim>\<open>WRITE\<close>
  and \<^verbatim>\<open>CLOSE\<close>. The four verbs of the upload are not concerned, nor is \<^verbatim>\<open>LIST\<close>, which
  has no precondition.\<close>

definition precondition_fails :: "string \<Rightarrow> session_state \<Rightarrow> world \<Rightarrow> bool" where
  "precondition_fails command s w =
     (case split command of
        [] \<Rightarrow> True
      | v # args \<Rightarrow>
          (let cmd = upper v
           in if cmd = ''LIST'' then False
              else if cmd = ''OPEN'' then
                open_file s \<noteq> None \<or> args = [] \<or> \<not> path_exists w (hd args)
              else if cmd = ''CREATE'' then open_file s \<noteq> None \<or> args = []
              else if cmd = ''RENAME'' then length args < 2 \<or> \<not> path_exists w (hd args)
              else if cmd = ''DELETE'' then args = [] \<or> \<not> path_exists w (hd args)
              else if cmd = ''READ'' then
                (case open_file s of None \<Rightarrow> True | Some n \<Rightarrow> \<not> path_exists w n)
              else if cmd = ''WRITE'' then open_file s = None \<or> args = []
              else if cmd = ''CLOSE'' then open_file s = None
              else if cmd = ''UPLOAD'' \<or> cmd = ''UPLOAD_DATA'' \<or> cmd = ''UPLOAD_END''
                      \<or> cmd = ''RESUME_UPLOAD'' then False
              else True))"

text \<open>A session that has the file \<open>f\<close> open.\<close>

definition open_session :: session_state where
  "open_session = initial_session\<lparr>open_file := Some ''f'', phase := FILE_OPEN\<rparr>"

text \<open>A line with its first word, the verb, put in capital letters; the whitespace before
  it and everything after it are kept.\<close>

definition upper_verb :: "string \<Rightarrow> string" where
  "upper_verb line =
     (let r = dropWhile isspace line
      in takeWhile isspace line @ upper (takeWhile (\<lambda>c. \<not> isspace c) r)
           @ dropWhile (\<lambda>c. \<not> isspace c) r)"







section \<open>Dispatch\<close>



section \<open>Ending an upload\<close>



section \<open>A chunk that cannot be stored\<close>

lemma gc_upload_data:
  "split c = v # args \<Longrightarrow> upper v = ''UPLOAD_DATA'' \<Longrightarrow>
   gestionnaire_commandes c s w = cmd_upload_data s (v # args) w"
  by (simp add: gestionnaire_commandes_def)

lemma fwrite_fault: "wfault w = Some m \<Longrightarrow> fwrite w h d = Inl (OSError m)"
  by (simp add: fwrite_def)

text \<open>
  Claim C3. For a command line \<^verbatim>\<open>UPLOAD_DATA hex\<close> received while a transfer is active:
  when the hexadecimal text does not decode, or the disk refuses the write, the reply is
  \<^verbatim>\<open>UPLOAD_ERROR\<close> followed by the text of the error, that text is stored in
  \<open>error_message\<close>, \<open>error_flag\<close> is set, and nothing else changes: the file object stays
  in the session, the offset keeps its value, and the directory is untouched.
\<close>

theorem upload_data_failure:
  assumes "split command = verb # args" and "upper verb = ''UPLOAD_DATA''" and "args \<noteq> []"
    and "transfer_in_progress s"
    and "isl (fromhex (join '' '' args)) \<or> wfault w \<noteq> None"
    and "gestionnaire_commandes command s w = (r, s', w')"
  shows "\<exists>detail. r = ''UPLOAD_ERROR '' @ detail \<and>
           s' = s\<lparr>error_flag := True, error_message := detail\<rparr> \<and>
           transfer_file s' = transfer_file s \<and> transfer_offset s' = transfer_offset s \<and>
           w' = w \<and>
           (\<forall>p. fromhex (join '' '' args) = Inl p \<longrightarrow> detail = str_exn (fromhex_error p)) \<and>
           (\<forall>d h m. fromhex (join '' '' args) = Inr d \<and> transfer_file s = Some h \<and>
                wfault w = Some m \<longrightarrow> detail = m)"
proof -
  have g: "cmd_upload_data s (verb # args) w = (r, s', w')"
    using assms(1,2,6) by (simp add: gc_upload_data)
  show ?thesis
  proof (cases "fromhex (join '' '' args)")
    case (Inl p)
    then show ?thesis
      using g assms(3,4) by (auto simp: cmd_upload_data_def upload_failed_def)
  next
    case (Inr d)
    then obtain m where m: "wfault w = Some m" using assms(5) by auto
    show ?thesis
    proof (cases "transfer_file s")
      case None
      then show ?thesis
        using g assms(3,4) Inr m by (auto simp: cmd_upload_data_def upload_failed_def)
    next
      case (Some h)
      then show ?thesis
        using g assms(3,4) Inr m
        by (auto simp: cmd_upload_data_def upload_failed_def fwrite_fault)
    qed
  qed
qed

theorem upload_data_failure_witness:
  "(transfer_in_progress uploading_session \<and> fromhex (join '' '' [''ZZZ'']) = Inl 0 \<and>
      gestionnaire_commandes ''UPLOAD_DATA ZZZ'' uploading_session hi_world =
        (''UPLOAD_ERROR '' @ str_exn (fromhex_error 0),
         uploading_session\<lparr>error_flag := True, error_message := str_exn (fromhex_error 0)\<rparr>,
         hi_world)) \<and>
   (fromhex (join '' '' [''4869'']) = Inr ''Hi'' \<and>
      wfault faulty_world = Some ''[Errno 28] No space left on device'' \<and>
      gestionnaire_commandes ''UPLOAD_DATA 4869'' uploading_session faulty_world =
        (''UPLOAD_ERROR '' @ ''[Errno 28] No space left on device'',
         uploading_session\<lparr>error_flag := True,
           error_message := ''[Errno 28] No space left on device''\<rparr>,
         faulty_world))"
proof -
  have up: "upper ''UPLOAD_DATA'' = ''UPLOAD_DATA''" by code_simp
  have tip: "transfer_in_progress uploading_session" by (simp add: uploading_session_def)
  have tf: "transfer_file uploading_session = Some \<lparr>h_inode = 0, h_append = True, h_pos = 2\<rparr>"
    by (simp add: uploading_session_def)
  have sp1: "split ''UPLOAD_DATA ZZZ'' = ''UPLOAD_DATA'' # [''ZZZ'']" by code_simp
  have d1: "fromhex (join '' '' [''ZZZ'']) = Inl 0" by code_simp
  have sp2: "split ''UPLOAD_DATA 4869'' = ''UPLOAD_DATA'' # [''4869'']" by code_simp
  have d2: "fromhex (join '' '' [''4869'']) = Inr ''Hi''" by code_simp
  have wf: "wfault faulty_world = Some ''[Errno 28] No space left on device''"
    by (simp add: faulty_world_def)
  have bad1: "isl (fromhex (join '' '' [''ZZZ''])) \<or> wfault hi_world \<noteq> None"
    by (simp only: d1 sum.disc simp_thms)
  have bad2: "isl (fromhex (join '' '' [''4869''])) \<or> wfault faulty_world \<noteq> None"
    by (simp only: wf option.distinct simp_thms)
  have ne1: "[''ZZZ''] \<noteq> []" and ne2: "[''4869''] \<noteq> []" by simp_all
  obtain r1 s1 w1 where g1:
    "gestionnaire_commandes ''UPLOAD_DATA ZZZ'' uploading_session hi_world = (r1, s1, w1)"
    by (rule prod_cases3)
  obtain r2 s2 w2 where g2:
    "gestionnaire_commandes ''UPLOAD_DATA 4869'' uploading_session faulty_world = (r2, s2, w2)"
    by (rule prod_cases3)
  from upload_data_failure [OF sp1 up ne1 tip bad1 g1] d1
  have t1: "r1 = ''UPLOAD_ERROR '' @ str_exn (fromhex_error 0) \<and>
    s1 = uploading_session\<lparr>error_flag := True, error_message := str_exn (fromhex_error 0)\<rparr> \<and>
    w1 = hi_world"
    by blast
  from upload_data_failure [OF sp2 up ne2 tip bad2 g2] d2 tf wf
  have t2: "r2 = ''UPLOAD_ERROR '' @ ''[Errno 28] No space left on device'' \<and>
    s2 = uploading_session\<lparr>error_flag := True,
           error_message := ''[Errno 28] No space left on device''\<rparr> \<and>
    w2 = faulty_world"
    by blast
  show ?thesis
    unfolding g1 g2 using tip d1 d2 wf t1 t2 by blast
qed

section \<open>Starting an upload\<close>


lemma map_of_snoc_fresh:
  "map_of xs k = None \<Longrightarrow> ([k \<mapsto> v] ++ map_of xs) k = Some v"
  by (simp add: map_add_def)





section \<open>Accepted chunks\<close>



lemma startswith_Nil: "startswith s []"
  by (simp add: startswith_def)

lemma startswith_Cons: "startswith (c # s) (d # p) \<longleftrightarrow> c = d \<and> startswith s p"
  by (auto simp: startswith_def)

lemma startswith_Nil_Cons: "\<not> startswith [] (d # p)"
  by (simp add: startswith_def)

lemmas startswith_simps = startswith_Nil startswith_Cons startswith_Nil_Cons





section \<open>The offset across commands\<close>







section \<open>A chunk delivered twice\<close>




section \<open>Writing to the open file\<close>

lemma gc_write:
  "split c = v # args \<Longrightarrow> upper v = ''WRITE'' \<Longrightarrow>
   gestionnaire_commandes c s w = cmd_write s (v # args) w"
  by (simp add: gestionnaire_commandes_def)

text \<open>
  Claim C9. For a command line \<^verbatim>\<open>WRITE data...\<close> in a session that has a file open, on a
  disk that accepts the write: the reply is \<^verbatim>\<open>WRITE_OK name\<close>, the session is unchanged,
  and the file holds the bytes it held before (none when the name had been removed from
  the directory: it is created again) followed by the arguments joined by single spaces
  and one line feed.
\<close>

theorem write_appends_line:
  assumes "split command = verb # args" and "upper verb = ''WRITE''" and "args \<noteq> []"
    and "open_file s = Some name" and "wfault w = None"
    and "gestionnaire_commandes command s w = (r, s', w')"
  shows "r = ''WRITE_OK '' @ name \<and> s' = s \<and>
         file_bytes w' name =
           Some ((case file_bytes w name of None \<Rightarrow> [] | Some b \<Rightarrow> b) @ join '' '' args @ nl)"
proof -
  have g: "cmd_write s (verb # args) w = (r, s', w')"
    using assms(1,2,6) by (simp add: gc_write)
  show ?thesis
  proof (cases "map_of (dir w) name")
    case None
    then show ?thesis
      using g assms(3,4,5)
      by (auto simp: cmd_write_def open_append_def open_trunc_def fwrite_def file_bytes_def
            Let_def map_of_snoc_fresh)
  next
    case (Some i)
    then show ?thesis
      using g assms(3,4,5)
      by (auto simp: cmd_write_def open_append_def fwrite_def file_bytes_def Let_def)
  qed
qed

theorem write_appends_line_witness:
  "open_file open_session = Some ''f'' \<and> wfault hi_world = None \<and>
   file_bytes hi_world ''f'' = Some ''Hi'' \<and>
   fst (gestionnaire_commandes ''write Hello,   world!'' open_session hi_world) = ''WRITE_OK '' @ ''f'' \<and>
   fst (snd (gestionnaire_commandes ''write Hello,   world!'' open_session hi_world)) = open_session \<and>
   file_bytes (snd (snd (gestionnaire_commandes ''write Hello,   world!'' open_session hi_world))) ''f''
     = Some (''Hi'' @ ''Hello, world!'' @ nl)"
proof -
  have sp: "split ''write Hello,   world!'' = ''write'' # [''Hello,'', ''world!'']" by code_simp
  have up: "upper ''write'' = ''WRITE''" by code_simp
  have ne: "[''Hello,'', ''world!''] \<noteq> []" by simp
  have j: "join '' '' [''Hello,'', ''world!''] = ''Hello, world!''" by simp
  have op: "open_file open_session = Some ''f''" by (simp add: open_session_def)
  have nf: "wfault hi_world = None" by (simp add: hi_world_def)
  have fb: "file_bytes hi_world ''f'' = Some ''Hi''" by (simp add: file_bytes_def hi_world_def)
  obtain r s' w' where g:
    "gestionnaire_commandes ''write Hello,   world!'' open_session hi_world = (r, s', w')"
    by (rule prod_cases3)
  note t = write_appends_line [OF sp up ne op nf g]
  have t3: "file_bytes w' ''f'' = Some (''Hi'' @ ''Hello, world!'' @ nl)"
    using t fb j by simp
  show ?thesis
    unfolding g using op nf fb t t3 by simp
qed

section \<open>Commands that fail their precondition\<close>

text \<open>
  Claim C8. When a command that is not part of a transfer fails its precondition (empty
  line, unknown verb, missing argument, absent file, \<^verbatim>\<open>OPEN\<close> or \<^verbatim>\<open>CREATE\<close> with a file
  open, \<^verbatim>\<open>READ\<close>, \<^verbatim>\<open>WRITE\<close> or \<^verbatim>\<open>CLOSE\<close> with none), the reply starts with \<^verbatim>\<open>ERREUR:\<close>
  and the session is returned as it was; the directory is untouched as well.
\<close>

theorem failed_precondition_no_change:
  assumes "precondition_fails command s w"
    and "gestionnaire_commandes command s w = (r, s', w')"
  shows "startswith r ''ERREUR:'' \<and> s' = s \<and> w' = w"
proof (cases "split command")
  case Nil
  then show ?thesis
    using assms(2) by (auto simp: gestionnaire_commandes_def startswith_simps)
next
  case (Cons v args)
  show ?thesis
  proof (cases args)
    case Nil
    then show ?thesis
      using assms Cons
      by (auto simp: precondition_fails_def gestionnaire_commandes_def Let_def startswith_simps
            cmd_open_def cmd_create_def cmd_rename_def cmd_delete_def cmd_read_def cmd_write_def
            cmd_close_def file_bytes_def path_exists_def
            split: if_splits option.splits)
  next
    case (Cons a rest)
    then show ?thesis
      using assms \<open>split command = v # args\<close>
      by (auto simp: precondition_fails_def gestionnaire_commandes_def Let_def startswith_simps
            cmd_open_def cmd_create_def cmd_rename_def cmd_delete_def cmd_read_def cmd_write_def
            cmd_close_def file_bytes_def path_exists_def
            split: if_splits option.splits)
  qed
qed

theorem failed_precondition_no_change_witness:
  "precondition_fails ''open nothing.txt'' initial_session hi_world \<and>
   startswith (fst (gestionnaire_commandes ''open nothing.txt'' initial_session hi_world)) ''ERREUR:'' \<and>
   snd (gestionnaire_commandes ''open nothing.txt'' initial_session hi_world)
     = (initial_session, hi_world) \<and>
   precondition_fails ''frobnicate'' open_session hi_world \<and>
   startswith (fst (gestionnaire_commandes ''frobnicate'' open_session hi_world)) ''ERREUR:'' \<and>
   snd (gestionnaire_commandes ''frobnicate'' open_session hi_world) = (open_session, hi_world)"
proof -
  have p1: "precondition_fails ''open nothing.txt'' initial_session hi_world" by code_simp
  have p2: "precondition_fails ''frobnicate'' open_session hi_world" by code_simp
  obtain r1 s1 w1 where g1:
    "gestionnaire_commandes ''open nothing.txt'' initial_session hi_world = (r1, s1, w1)"
    by (rule prod_cases3)
  obtain r2 s2 w2 where g2:
    "gestionnaire_commandes ''frobnicate'' open_session hi_world = (r2, s2, w2)"
    by (rule prod_cases3)
  show ?thesis
    unfolding g1 g2
    using p1 p2 failed_precondition_no_change [OF p1 g1] failed_precondition_no_change [OF p2 g2]
    by simp
qed

section \<open>The download stream\<close>

lemma hexdigit_value: "n < 16 \<Longrightarrow> hex_value (hexdigit n) = Some n"
  by (auto simp: hex_value_def hexdigit_def Let_def)

lemma hexdigit_not_space: "n < 16 \<Longrightarrow> \<not> hex_isspace (hexdigit n)"
  by (auto simp: hex_isspace_def hexdigit_def Let_def)

lemma char_of_nibbles: "char_of (16 * ((of_char c :: nat) div 16) + (of_char c :: nat) mod 16) = c"
  by simp

lemma of_char_div_16: "(of_char c :: nat) div 16 < 16"
proof -
  have "(of_char c :: nat) < 256" by simp
  then show ?thesis by presburger
qed

lemma fromhex_at_hex: "fromhex_at p (hex bs) = Inr bs"
proof (induction bs arbitrary: p)
  case Nil
  then show ?case by (simp add: hex_def)
next
  case (Cons b bs)
  have "hex (b # bs) = hexdigit ((of_char b :: nat) div 16) # hexdigit ((of_char b :: nat) mod 16) # hex bs"
    by (simp add: hex_def hex_byte_def)
  then show ?case
    using Cons.IH [of "Suc (Suc p)"]
    by (simp add: hexdigit_value hexdigit_not_space of_char_div_16 char_of_nibbles)
qed

lemma fromhex_hex: "fromhex (hex bs) = Inr bs"
  by (simp add: fromhex_def fromhex_at_hex)

lemma read_chunks_concat: "concat (read_chunks rest) = rest"
proof (induction rest rule: read_chunks.induct)
  case (1 rest)
  show ?case
  proof (cases "take BLOCK_SIZE rest = []")
    case True
    then have "rest = []" by (auto simp: BLOCK_SIZE_def)
    then show ?thesis by (simp add: read_chunks.simps)
  next
    case False
    then have "concat (read_chunks (drop BLOCK_SIZE rest)) = drop BLOCK_SIZE rest"
      using "1.IH" by simp
    then show ?thesis
      using False by (subst read_chunks.simps) (simp add: Let_def)
  qed
qed

lemma read_chunks_sizes:
  "c \<in> set (read_chunks rest) \<Longrightarrow> c \<noteq> [] \<and> length c \<le> BLOCK_SIZE"
proof (induction rest rule: read_chunks.induct)
  case (1 rest)
  show ?case
  proof (cases "take BLOCK_SIZE rest = []")
    case True
    then show ?thesis using "1.prems" by (simp add: read_chunks.simps)
  next
    case False
    from "1.prems" False have "c = take BLOCK_SIZE rest \<or> c \<in> set (read_chunks (drop BLOCK_SIZE rest))"
      by (subst (asm) read_chunks.simps) (simp add: Let_def)
    then show ?thesis
      using False "1.IH" by auto
  qed
qed

text \<open>
  Claim C7. For a request \<^verbatim>\<open>DOWNLOAD name\<close> or \<^verbatim>\<open>DOWNLOAD name offset\<close>, where the offset
  is written as a non-negative integer \<open>n\<close> that fits a file offset: when the file exists
  the server sends the line \<^verbatim>\<open>DOWNLOAD_READY name offset=n\<close>, then one \<^verbatim>\<open>CHUNK\<close> line for
  each block read, then \<^verbatim>\<open>DOWNLOAD_END\<close>; every block has between 1 and 512 bytes, its
  hexadecimal text decodes to it, and the blocks put end to end are the bytes of the file
  from position \<open>n\<close> on. When the file does not exist the server sends one line, which
  starts with \<^verbatim>\<open>ERREUR:\<close>, whatever the offset argument is.
\<close>

theorem download_stream:
  assumes "split command = verb # name # rest"
  shows "(file_bytes w name = Some b \<and> n < 2 ^ 63 \<and>
            (if rest = [] then n = 0 else py_int (hd rest) = Some (int n)) \<longrightarrow>
            cmd_download command s w =
              [''DOWNLOAD_READY '' @ name @ '' offset='' @ str_nat n @ nl]
                @ map chunk_line (read_chunks (drop n b)) @ [''DOWNLOAD_END'' @ nl] \<and>
            concat (read_chunks (drop n b)) = drop n b \<and>
            (\<forall>c\<in>set (read_chunks (drop n b)).
                c \<noteq> [] \<and> length c \<le> 512 \<and> fromhex (hex c) = Inr c \<and>
                chunk_line c = ''CHUNK '' @ hex c @ nl)) \<and>
         (file_bytes w name = None \<longrightarrow>
            (\<exists>detail. cmd_download command s w = [''ERREUR:'' @ detail]))"
proof (intro conjI impI)
  assume a: "file_bytes w name = Some b \<and> n < 2 ^ 63 \<and>
            (if rest = [] then n = 0 else py_int (hd rest) = Some (int n))"
  have off: "(if length (verb # name # rest) > 2 then py_int ((verb # name # rest) ! 2) else Some 0)
      = Some (int n)"
    using a by (cases rest) auto
  have sk: "seek_check (int n) = Inr n"
    using a by (simp add: seek_check_def)
  show "cmd_download command s w =
              [''DOWNLOAD_READY '' @ name @ '' offset='' @ str_nat n @ nl]
                @ map chunk_line (read_chunks (drop n b)) @ [''DOWNLOAD_END'' @ nl]"
    unfolding cmd_download_def assms Let_def off
    using a sk by (simp add: str_int_def)
  show "concat (read_chunks (drop n b)) = drop n b"
    by (rule read_chunks_concat)
  show "\<forall>c\<in>set (read_chunks (drop n b)).
                c \<noteq> [] \<and> length c \<le> 512 \<and> fromhex (hex c) = Inr c \<and>
                chunk_line c = ''CHUNK '' @ hex c @ nl"
    using read_chunks_sizes [of _ "drop n b"]
    by (auto simp: fromhex_hex chunk_line_def BLOCK_SIZE_def)
next
  assume a: "file_bytes w name = None"
  show "\<exists>detail. cmd_download command s w = [''ERREUR:'' @ detail]"
    unfolding cmd_download_def assms Let_def
    using a by (simp split: option.splits)
qed

theorem download_stream_witness:
  "(file_bytes hi_world ''f'' = Some ''Hi'' \<and> (1::nat) < 2 ^ 63 \<and> py_int ''1'' = Some (int 1) \<and>
      cmd_download ''DOWNLOAD f 1'' initial_session hi_world =
        [''DOWNLOAD_READY '' @ ''f'' @ '' offset='' @ str_nat 1 @ nl]
          @ map chunk_line [''i''] @ [''DOWNLOAD_END'' @ nl] \<and>
      read_chunks (drop 1 ''Hi'') = [''i''] \<and> fromhex (hex ''i'') = Inr ''i'' \<and>
      fst (handle_line ''DOWNLOAD f 1'' initial_session hi_world) =
        [''DOWNLOAD_READY f offset=1'' @ nl, ''CHUNK 69'' @ nl, ''DOWNLOAD_END'' @ nl]) \<and>
   (file_bytes hi_world ''g'' = None \<and>
      startswith (hd (cmd_download ''DOWNLOAD g 0'' initial_session hi_world)) ''ERREUR:'' \<and>
      length (cmd_download ''DOWNLOAD g 0'' initial_session hi_world) = 1)"
proof -
  have sp1: "split ''DOWNLOAD f 1'' = ''DOWNLOAD'' # ''f'' # [''1'']" by code_simp
  have sp2: "split ''DOWNLOAD g 0'' = ''DOWNLOAD'' # ''g'' # [''0'']" by code_simp
  have fb1: "file_bytes hi_world ''f'' = Some ''Hi''" by (simp add: file_bytes_def hi_world_def)
  have fb2: "file_bytes hi_world ''g'' = None" by (simp add: file_bytes_def hi_world_def)
  have pi: "py_int ''1'' = Some (int 1)" by code_simp
  have rc: "read_chunks (drop 1 ''Hi'') = [''i'']" by code_simp
  have hl: "fst (handle_line ''DOWNLOAD f 1'' initial_session hi_world) =
        [''DOWNLOAD_READY f offset=1'' @ nl, ''CHUNK 69'' @ nl, ''DOWNLOAD_END'' @ nl]"
    by code_simp
  have hyp: "file_bytes hi_world ''f'' = Some ''Hi'' \<and> (1::nat) < 2 ^ 63 \<and>
      (if [''1''] = [] then (1::nat) = 0 else py_int (hd [''1'']) = Some (int 1))"
    using fb1 pi by simp
  note t1 = download_stream [OF sp1, of hi_world "''Hi''" 1 initial_session]
  note t2 = download_stream [OF sp2, of hi_world "''Hi''" 0 initial_session]
  have a: "cmd_download ''DOWNLOAD f 1'' initial_session hi_world =
        [''DOWNLOAD_READY '' @ ''f'' @ '' offset='' @ str_nat 1 @ nl]
          @ map chunk_line [''i''] @ [''DOWNLOAD_END'' @ nl]"
    using t1 hyp rc by simp
  have b: "fromhex (hex ''i'') = Inr ''i''"
    using t1 hyp rc by simp
  from t2 fb2 obtain detail where
    d: "cmd_download ''DOWNLOAD g 0'' initial_session hi_world = [''ERREUR:'' @ detail]"
    by blast
  have c: "startswith (hd (cmd_download ''DOWNLOAD g 0'' initial_session hi_world)) ''ERREUR:''"
    unfolding d by (simp add: startswith_def)
  have e: "length (cmd_download ''DOWNLOAD g 0'' initial_session hi_world) = 1"
    unfolding d by simp
  show ?thesis
    using fb1 fb2 pi rc hl a b c e by simp
qed

section \<open>The case of the verb\<close>

lemma isspace_toupper [simp]: "isspace (toupper c) = isspace c"
  by (auto simp: isspace_def toupper_def Let_def)

lemma toupper_idem [simp]: "toupper (toupper c) = toupper c"
  by (auto simp: toupper_def Let_def)

lemma upper_idem [simp]: "upper (upper s) = upper s"
  by (simp add: upper_def)

lemma upper_append: "upper (a @ b) = upper a @ upper b"
  by (simp add: upper_def)

lemma rstrip_append_word:
  assumes "\<forall>c\<in>set a. \<not> isspace c"
  shows "rstrip (a @ b) = a @ (if \<forall>c\<in>set b. isspace c then [] else rstrip b)"
proof -
  have "dropWhile isspace (rev a) = rev a"
    using assms by (cases "rev a") auto
  then show ?thesis
    by (auto simp: rstrip_def dropWhile_append)
qed

lemma rstrip_head:
  assumes "rstrip xs \<noteq> []" and "xs = [] \<or> isspace (hd xs)"
  shows "isspace (hd (rstrip xs))"
proof -
  have "\<exists>k. rstrip xs = take k xs"
  proof -
    have "rev xs = takeWhile isspace (rev xs) @ dropWhile isspace (rev xs)" by simp
    then have "xs = rev (dropWhile isspace (rev xs)) @ rev (takeWhile isspace (rev xs))"
      by (metis rev_append rev_rev_ident)
    then have "take (length (rstrip xs)) xs = rstrip xs"
      by (metis rstrip_def append_eq_conv_conj)
    then show ?thesis by metis
  qed
  then obtain k where k: "rstrip xs = take k xs" ..
  with assms(1) have "xs \<noteq> []" "k \<noteq> 0" by auto
  then have "hd (take k xs) = hd xs" by (cases xs; cases k) auto
  then show ?thesis using assms(2) k \<open>xs \<noteq> []\<close> by simp
qed

text \<open>The command of a line and that of the line with its verb in capitals: the same
  text after a first word that differs by the case of its letters only.\<close>

lemma strip_upper_verb:
  "\<exists>tok X. strip line = tok @ X \<and> strip (upper_verb line) = upper tok @ X \<and>
     (\<forall>c\<in>set tok. \<not> isspace c) \<and> (X = [] \<or> isspace (hd X)) \<and> (tok = [] \<longrightarrow> X = [])"
proof -
  define r where "r = dropWhile isspace line"
  define tok where "tok = takeWhile (\<lambda>c. \<not> isspace c) r"
  define rest where "rest = dropWhile (\<lambda>c. \<not> isspace c) r"
  define X where "X = (if \<forall>c\<in>set rest. isspace c then [] else rstrip rest)"
  have r: "r = tok @ rest" by (simp add: tok_def rest_def)
  have tok: "\<forall>c\<in>set tok. \<not> isspace c"
    unfolding tok_def by (auto dest: set_takeWhileD)
  have utok: "\<forall>c\<in>set (upper tok). \<not> isspace c"
    using tok by (auto simp: upper_def)
  have rest: "rest = [] \<or> isspace (hd rest)"
    unfolding rest_def using hd_dropWhile [of "\<lambda>c. \<not> isspace c" r] by auto
  have empty: "tok = [] \<longrightarrow> rest = []"
  proof
    assume "tok = []"
    then have "r = [] \<or> isspace (hd r)"
      unfolding tok_def by (cases r) (auto split: if_splits)
    moreover have "r = [] \<or> \<not> isspace (hd r)"
      unfolding r_def using hd_dropWhile [of isspace line] by auto
    ultimately have "r = []" by auto
    then show "rest = []" by (simp add: rest_def)
  qed
  have l1: "lstrip line = tok @ rest" using r by (simp add: lstrip_def r_def)
  have "dropWhile isspace (takeWhile isspace line @ upper tok @ rest) = dropWhile isspace (upper tok @ rest)"
    by (simp add: dropWhile_append) (auto dest: set_takeWhileD)
  moreover have "dropWhile isspace (upper tok @ rest) = upper tok @ rest"
  proof (cases tok)
    case Nil
    then show ?thesis using empty by (simp add: upper_def)
  next
    case (Cons a as)
    then show ?thesis using tok by (simp add: upper_def)
  qed
  ultimately have l2: "lstrip (upper_verb line) = upper tok @ rest"
    by (simp add: lstrip_def upper_verb_def Let_def r_def [symmetric] tok_def [symmetric]
          rest_def [symmetric])
  have s1: "strip line = tok @ X"
    unfolding strip_def l1 X_def by (rule rstrip_append_word [OF tok])
  have s2: "strip (upper_verb line) = upper tok @ X"
    unfolding strip_def l2 X_def by (rule rstrip_append_word [OF utok])
  have X: "X = [] \<or> isspace (hd X)"
    unfolding X_def using rstrip_head [OF _ rest] by auto
  have "tok = [] \<longrightarrow> X = []"
    using empty by (auto simp: X_def)
  with s1 s2 tok X show ?thesis by blast
qed

lemma split_word:
  assumes "tok \<noteq> []" and "\<forall>c\<in>set tok. \<not> isspace c" and "X = [] \<or> isspace (hd X)"
  shows "split (tok @ X) = tok # split X"
proof -
  obtain a as where t: "tok = a # as" using assms(1) by (cases tok) auto
  have d: "dropWhile isspace (tok @ X) = tok @ X"
    using assms(2) t by simp
  have tX: "takeWhile (\<lambda>c. \<not> isspace c) X = []" "dropWhile (\<lambda>c. \<not> isspace c) X = X"
    using assms(3) by (cases X; simp)+
  have tk: "takeWhile (\<lambda>c. \<not> isspace c) (tok @ X) = tok"
    using assms(2) tX by (simp add: takeWhile_append)
  have dr: "dropWhile (\<lambda>c. \<not> isspace c) (tok @ X) = X"
    using assms(2) tX by (simp add: dropWhile_append)
  show ?thesis
    by (subst split.simps) (simp add: d tk dr Let_def t [symmetric] assms(1))
qed

lemma cmd_verb_ignored:
  "cmd_open s (v # args) w = cmd_open s (v' # args) w"
  "cmd_create s (v # args) w = cmd_create s (v' # args) w"
  "cmd_rename s (v # args) w = cmd_rename s (v' # args) w"
  "cmd_delete s (v # args) w = cmd_delete s (v' # args) w"
  "cmd_write s (v # args) w = cmd_write s (v' # args) w"
  "cmd_begin_upload s (v # args) w = cmd_begin_upload s (v' # args) w"
  "cmd_upload_data s (v # args) w = cmd_upload_data s (v' # args) w"
  by (simp_all add: cmd_open_def cmd_create_def cmd_rename_def cmd_delete_def cmd_write_def
        cmd_begin_upload_def cmd_upload_data_def Let_def split: option.splits)

lemma gestionnaire_commandes_upper:
  assumes "\<forall>c\<in>set tok. \<not> isspace c" and "X = [] \<or> isspace (hd X)" and "tok = [] \<longrightarrow> X = []"
  shows "gestionnaire_commandes (upper tok @ X) s w = gestionnaire_commandes (tok @ X) s w"
proof (cases "tok = []")
  case True
  then show ?thesis using assms(3) by (simp add: upper_def)
next
  case False
  have u: "upper tok \<noteq> []" "\<forall>c\<in>set (upper tok). \<not> isspace c"
    using False assms(1) by (auto simp: upper_def)
  have s1: "split (tok @ X) = tok # split X"
    by (rule split_word [OF False assms(1,2)])
  have s2: "split (upper tok @ X) = upper tok # split X"
    by (rule split_word [OF u assms(2)])
  show ?thesis
    by (auto simp: gestionnaire_commandes_def s1 s2 Let_def intro: cmd_verb_ignored)
qed

lemma cmd_download_upper:
  assumes "\<forall>c\<in>set tok. \<not> isspace c" and "X = [] \<or> isspace (hd X)" and "tok = [] \<longrightarrow> X = []"
  shows "cmd_download (upper tok @ X) s w = cmd_download (tok @ X) s w"
proof (cases "tok = []")
  case True
  then show ?thesis using assms(3) by (simp add: upper_def)
next
  case False
  have u: "upper tok \<noteq> []" "\<forall>c\<in>set (upper tok). \<not> isspace c"
    using False assms(1) by (auto simp: upper_def)
  have s1: "split (tok @ X) = tok # split X"
    by (rule split_word [OF False assms(1,2)])
  have s2: "split (upper tok @ X) = upper tok # split X"
    by (rule split_word [OF u assms(2)])
  show ?thesis
    by (simp add: cmd_download_def s1 s2 Let_def)
qed

text \<open>
  Claim C10. A line and the same line with its verb in capital letters get the same
  answer and leave the same session and the same directory, whatever the line, the session
  and the directory are: \<^verbatim>\<open>handle_client\<close> looks for \<^verbatim>\<open>DOWNLOAD\<close> at the start of the
  line put in capitals, and \<^verbatim>\<open>gestionnaire_commandes\<close> compares the first word put in
  capitals with the verbs.
\<close>

theorem verb_case_insensitive:
  "handle_line (upper_verb line) s w = handle_line line s w"
proof -
  obtain tok X where c1: "strip line = tok @ X"
    and c2: "strip (upper_verb line) = upper tok @ X"
    and tok: "\<forall>c\<in>set tok. \<not> isspace c" and X: "X = [] \<or> isspace (hd X)"
    and e: "tok = [] \<longrightarrow> X = []"
    using strip_upper_verb by blast
  have "upper (upper tok @ X) = upper (tok @ X)"
    by (simp add: upper_append)
  then show ?thesis
    by (simp add: handle_line_def c1 c2 Let_def
          gestionnaire_commandes_upper [OF tok X e] cmd_download_upper [OF tok X e])
qed

text \<open>For instance, on the lines \<^verbatim>\<open>open f\<close> and \<^verbatim>\<open>dOwnLoad f 0\<close>.\<close>

lemma upper_verb_examples:
  "upper_verb ''open f'' = ''OPEN f'' \<and> upper_verb ''  dOwnLoad f 0'' = ''  DOWNLOAD f 0'' \<and>
   fst (handle_line ''open f'' initial_session hi_world) = [''OPEN_OK f'' @ nl] \<and>
   fst (handle_line ''OPEN f'' initial_session hi_world) = [''OPEN_OK f'' @ nl]"
  by code_simp

section \<open>The attempts of the upload driver\<close>







end
